theory Spec2Isabelle
  imports Main "HOL-Library.Word" "HOL-Library.Signed_Division"
begin

unbundle bit_operations_syntax

section \<open>Package model: errors, operation types, the transaction request\<close>

text \<open>
  Go's \<open>int64\<close> is a 64-bit word: \<open>+\<close> and \<open>-\<close> wrap around, comparisons read the
  word as two's complement (\<open>sint\<close>).  Go's \<open>int\<close> is taken at its 64-bit width, that of the
  platforms the Dockerfile builds for; \<open>uint32\<close> is a 32-bit word.
\<close>

type_synonym int64 = "64 word"
type_synonym go_int = "64 word"
type_synonym uint32 = "32 word"

text \<open>
  The four sentinel errors of package model, and \<open>ErrWrapped\<close> for the errors built by
  \<open>fmt.Errorf("...: %w", err)\<close> around a failure of the database driver; the string is
  the message prefix of the source.
\<close>

datatype error =
    ErrWalletNotFound
  | ErrInsufficientFunds
  | ErrInvalidAmount
  | ErrInvalidOperation
  | ErrWrapped string

type_synonym OperationType = string

definition Deposit :: OperationType where
  "Deposit = ''DEPOSIT''"

definition Withdraw :: OperationType where
  "Withdraw = ''WITHDRAW''"

record Transaction =
  WalletID :: string
  OperationType :: OperationType
  Amount :: int64

section \<open>The balance store\<close>

text \<open>
  Modelled from the spec: the schema of table \<open>wallets\<close> (migrations/001_init.sql) is not
  among the sources.  The spec gives "one row per wallet, columns {id, balance}" with
  \<open>balance\<close> "a 64-bit signed integer", the identifier "assigned by the store on
  creation"; no further column constraint is stated, so a row accepts every 64-bit value.

  The store is the table, a map from wallet identifier to balance, together with the trace
  of the statements issued against it.  The trace is what lets a theorem say that a call
  issued no write, or exactly one.
\<close>

datatype db_call =
    InsertWallet
  | BeginTx
  | QueryExists string
  | QueryBalanceForUpdate string
  | ExecUpdate int64 string
  | Commit
  | Rollback
  | QueryBalance string

record db =
  wallets :: "string \<rightharpoonup> int64"
  calls :: "db_call list"

text \<open>
  Every call of the driver can fail (connection lost, context cancelled, deadline passed).
  The oracle says which calls fail during one repository operation.
\<close>

type_synonym faults = "db_call \<Rightarrow> bool"

definition no_faults :: faults where
  "no_faults = (\<lambda>c. False)"

definition issue :: "db_call \<Rightarrow> db \<Rightarrow> db" where
  "issue c d = d\<lparr>calls := calls d @ [c]\<rparr>"

section \<open>PostgresRepository\<close>

text \<open>
  \<open>CreateWallet\<close>: \<open>INSERT INTO wallets (balance) VALUES (0) RETURNING id::text\<close>,
  scanned into the identifier.  What the store answers is a parameter: the identifier it
  has chosen for the new row, no row at all (\<open>sql.ErrNoRows\<close>, which the source turns into
  \<open>ErrWalletNotFound\<close>), or another failure of the driver.
\<close>

datatype insert_result = Inserted string | InsertNoRows | InsertFails

definition PostgresRepository_CreateWallet ::
  "insert_result \<Rightarrow> db \<Rightarrow> (error + string) \<times> db" where
  "PostgresRepository_CreateWallet r d =
     (let d1 = issue InsertWallet d in
      case r of
        InsertNoRows \<Rightarrow> (Inl ErrWalletNotFound, d1)
      | InsertFails \<Rightarrow> (Inl (ErrWrapped ''failed to create wallet''), d1)
      | Inserted walletID \<Rightarrow> (Inr walletID, d1\<lparr>wallets := (wallets d1)(walletID \<mapsto> 0)\<rparr>))"

text \<open>
  \<open>ProcessTransaction(ctx, walletID, amount, isDeposit)\<close>.  The result is the returned
  error (\<open>None\<close> is \<open>nil\<close>) and the store afterwards.  The statements of the open
  transaction reach the table at \<open>Commit\<close> only; every return after \<open>BeginTx\<close> runs the
  deferred \<open>tx.Rollback()\<close>, which discards an uncommitted update and does nothing after a
  commit.
\<close>

definition PostgresRepository_ProcessTransaction ::
  "faults \<Rightarrow> db \<Rightarrow> string \<Rightarrow> int64 \<Rightarrow> bool \<Rightarrow> error option \<times> db" where
  "PostgresRepository_ProcessTransaction fails d walletID amount isDeposit =
     (if sint amount \<le> 0 then (Some ErrInvalidAmount, d)
      else
        let d1 = issue BeginTx d in
        if fails BeginTx then (Some (ErrWrapped ''failed to begin transaction''), d1)
        else
          let d2 = issue (QueryExists walletID) d1 in
          if fails (QueryExists walletID)
          then (Some (ErrWrapped ''wallet existence check failed''), issue Rollback d2)
          else if wallets d2 walletID = None
          then (Some ErrWalletNotFound, issue Rollback d2)
          else
            let d3 = issue (QueryBalanceForUpdate walletID) d2 in
            (case (if fails (QueryBalanceForUpdate walletID) then None else wallets d3 walletID) of
               None \<Rightarrow> (Some (ErrWrapped ''failed to get balance''), issue Rollback d3)
             | Some balance \<Rightarrow>
                 if \<not> isDeposit \<and> sint balance < sint amount
                 then (Some ErrInsufficientFunds, issue Rollback d3)
                 else
                   let newBalance = (if isDeposit then balance + amount else balance - amount);
                       d4 = issue (ExecUpdate newBalance walletID) d3 in
                   if fails (ExecUpdate newBalance walletID)
                   then (Some (ErrWrapped ''balance update failed''), issue Rollback d4)
                   else
                     let d5 = issue Commit d4 in
                     if fails Commit
                     then (Some (ErrWrapped ''transaction commit failed''), issue Rollback d5)
                     else (None,
                           issue Rollback (d5\<lparr>wallets := (wallets d5)(walletID \<mapsto> newBalance)\<rparr>))))"

text \<open>
  \<open>GetBalance\<close>: a plain read outside any transaction.  A driver error other than
  \<open>sql.ErrNoRows\<close> is returned as it is, without a message prefix.
\<close>

definition PostgresRepository_GetBalance ::
  "faults \<Rightarrow> db \<Rightarrow> string \<Rightarrow> (error + int64) \<times> db" where
  "PostgresRepository_GetBalance fails d walletID =
     (let d1 = issue (QueryBalance walletID) d in
      if fails (QueryBalance walletID) then (Inl (ErrWrapped []), d1)
      else (case wallets d1 walletID of
              None \<Rightarrow> (Inl ErrWalletNotFound, d1)
            | Some balance \<Rightarrow> (Inr balance, d1)))"

section \<open>walletService\<close>

text \<open>
  A buffered channel of requests: the buffer in arrival order and the closed flag.  Every
  lane queue is made with capacity 10000.  The \<open>ctx\<close> of a request only reaches the
  driver calls and is part of the fault oracle; \<open>req_result\<close> names the single-use reply
  channel of the request.
\<close>

record transactionRequest =
  req_t :: Transaction
  req_result :: nat

record chan =
  buf :: "transactionRequest list"
  closed :: bool

definition queue_cap :: nat where
  "queue_cap = 10000"

record walletService =
  repo :: db
  queues :: "chan list"
  workers :: go_int

text \<open>
  How a call ends: it returns a value or it panics (a Go run-time panic, with the message
  of the run time).
\<close>

datatype 'a go = Returns 'a | Panics string

text \<open>
  \<open>make([]chan transactionRequest, workers)\<close> panics on a negative length and on a length
  whose size in bytes is beyond what the run time can ever allocate: on the 64-bit linux
  platforms that limit is \<open>2 ^ 48\<close> bytes, and a channel value takes 8 bytes, so the largest
  length \<open>make\<close> accepts is \<open>2 ^ 45\<close>.  Below that limit the machine is taken to have the
  memory asked for.
\<close>

definition max_slice_len :: int where
  "max_slice_len = 2 ^ 45"

definition NewWalletService :: "db \<Rightarrow> go_int \<Rightarrow> walletService go" where
  "NewWalletService r w =
     (if sint w < 0 \<or> max_slice_len < sint w then Panics ''makeslice: len out of range''
      else Returns \<lparr>repo = r,
                    queues = replicate (nat (sint w)) \<lparr>buf = [], closed = False\<rparr>,
                    workers = w\<rparr>)"

text \<open>
  Package hash/fnv of the Go standard library, 32-bit FNV-1a: \<open>New32a\<close> starts from
  \<open>offset32\<close>, \<open>Write\<close> does \<open>hash ^= c; hash *= prime32\<close> for every byte and
  \<open>Sum32\<close> returns the state.
\<close>

definition offset32 :: uint32 where
  "offset32 = 2166136261"

definition prime32 :: uint32 where
  "prime32 = 16777619"

fun sum32a_Write :: "uint32 \<Rightarrow> string \<Rightarrow> uint32" where
  "sum32a_Write h [] = h"
| "sum32a_Write h (c # cs) = sum32a_Write ((h XOR of_char c) * prime32) cs"

text \<open>
  Go's \<open>%\<close> on \<open>int\<close>: the remainder of the division truncated towards zero (the sign
  follows the dividend); a zero divisor is a run-time panic.
\<close>

definition go_rem :: "go_int \<Rightarrow> go_int \<Rightarrow> go_int go" where
  "go_rem a b =
     (if b = 0 then Panics ''integer divide by zero''
      else Returns (word_of_int (sint a smod sint b)))"

text \<open>\<open>getShard\<close>: \<open>int(h.Sum32()) % s.workers\<close>; the conversion of the \<open>uint32\<close> to
  the 64-bit \<open>int\<close> extends with zeros.\<close>

definition getShard :: "walletService \<Rightarrow> string \<Rightarrow> go_int go" where
  "getShard s walletID =
     (let h = sum32a_Write offset32 walletID
      in go_rem (ucast h) (workers s))"

text \<open>
  \<open>ProcessTransaction\<close> of the service up to and including the send
  \<open>s.queues[shard] <- transactionRequest{...}\<close>: the call is rejected with an error
  before any lane is touched, or the request is in the buffer of a lane, or the send blocks
  on a full buffer (the goroutine is suspended), or the call panics (zero divisor, index
  out of range, send on a closed channel).  \<open>rc\<close> is the reply channel made for the
  request.
\<close>

datatype admission = Rejected error | Enqueued nat | Blocked nat | Panicked string

definition ProcessTransaction_send ::
  "walletService \<Rightarrow> nat \<Rightarrow> Transaction \<Rightarrow> admission \<times> walletService" where
  "ProcessTransaction_send s rc tr =
     (if sint (Amount tr) \<le> 0 then (Rejected ErrInvalidAmount, s)
      else
        case getShard s (WalletID tr) of
          Panics m \<Rightarrow> (Panicked m, s)
        | Returns shard \<Rightarrow>
            if sint shard < 0 \<or> length (queues s) \<le> nat (sint shard)
            then (Panicked ''index out of range'', s)
            else
              let i = nat (sint shard); q = queues s ! i in
              if closed q then (Panicked ''send on closed channel'', s)
              else if queue_cap \<le> length (buf q) then (Blocked i, s)
              else (Enqueued i,
                    s\<lparr>queues := (queues s)[i := q\<lparr>buf := buf q @ [\<lparr>req_t = tr, req_result = rc\<rparr>]\<rparr>]\<rparr>))"

text \<open>
  The body of the \<open>range\<close> loop of \<open>processTransactions\<close> for one request: the switch
  on the operation type, with the error that is then sent on the reply channel.
\<close>

definition processRequest :: "faults \<Rightarrow> db \<Rightarrow> transactionRequest \<Rightarrow> error option \<times> db" where
  "processRequest fails d req =
     (if OperationType (req_t req) = Deposit
      then PostgresRepository_ProcessTransaction fails d (WalletID (req_t req)) (Amount (req_t req)) True
      else if OperationType (req_t req) = Withdraw
      then PostgresRepository_ProcessTransaction fails d (WalletID (req_t req)) (Amount (req_t req)) False
      else (Some ErrInvalidOperation, d))"

text \<open>
  The loop of \<open>processTransactions\<close> over what a lane holds, in arrival order; it yields
  the replies sent, keyed by reply channel, and the store afterwards.
\<close>

fun processTransactions :: "faults \<Rightarrow> db \<Rightarrow> transactionRequest list \<Rightarrow> (nat \<times> error option) list \<times> db" where
  "processTransactions fails d [] = ([], d)"
| "processTransactions fails d (req # reqs) =
     (case processRequest fails d req of
        (err, d1) \<Rightarrow>
          (case processTransactions fails d1 reqs of
             (outs, d2) \<Rightarrow> ((req_result req, err) # outs, d2)))"

text \<open>
  \<open>Shutdown\<close>: close every lane queue (closing a closed channel panics), then wait for
  the workers, each of which drains what its lane still holds and stops.  The lanes are
  drained here in index order, one of the schedules of the workers.
\<close>

definition Shutdown :: "faults \<Rightarrow> walletService \<Rightarrow> walletService go" where
  "Shutdown fails s =
     (if list_ex closed (queues s) then Panics ''close of closed channel''
      else
        let d = snd (processTransactions fails (repo s) (concat (map buf (queues s))))
        in Returns (s\<lparr>repo := d,
                       queues := map (\<lambda>q. \<lparr>buf = [], closed = True\<rparr>) (queues s)\<rparr>))"

section \<open>Sequences of repository operations\<close>

text \<open>
  The store before the first wallet is created, and the store after a list of calls of
  \<open>ProcessTransaction\<close>, each with its wallet, amount, direction and fault oracle, run
  one after the other.  The returned errors are dropped: what is kept is the committed
  state.
\<close>

definition empty_db :: db where
  "empty_db = \<lparr>wallets = Map.empty, calls = []\<rparr>"

type_synonym repo_op = "faults \<times> string \<times> int64 \<times> bool"

fun apply_ops :: "db \<Rightarrow> repo_op list \<Rightarrow> db" where
  "apply_ops d [] = d"
| "apply_ops d ((fails, w, a, dep) # ops) =
     apply_ops (snd (PostgresRepository_ProcessTransaction fails d w a dep)) ops"

text \<open>
  \<open>credits_fit d ops\<close>: no deposit of the sequence, at the moment it runs on an existing
  wallet, has a sum of balance and amount beyond the largest \<open>int64\<close>.
\<close>

fun credits_fit :: "db \<Rightarrow> repo_op list \<Rightarrow> bool" where
  "credits_fit d [] = True"
| "credits_fit d ((fails, w, a, dep) # ops) =
     ((case wallets d w of
         None \<Rightarrow> True
       | Some b \<Rightarrow> \<not> dep \<or> sint b + sint a < 2 ^ 63)
      \<and> credits_fit (snd (PostgresRepository_ProcessTransaction fails d w a dep)) ops)"

fun is_debit :: "repo_op \<Rightarrow> bool" where
  "is_debit (fails, w, a, dep) = (\<not> dep)"

definition nonneg_balance :: "db \<Rightarrow> string \<Rightarrow> bool" where
  "nonneg_balance d w = (case wallets d w of None \<Rightarrow> False | Some b \<Rightarrow> 0 \<le> sint b)"

text \<open>The lanes agree with the worker count, as \<open>NewWalletService\<close> makes them.\<close>

definition lanes_ok :: "walletService \<Rightarrow> bool" where
  "lanes_ok s = (0 < sint (workers s) \<and> length (queues s) = nat (sint (workers s)))"

section \<open>Arithmetic of \<open>int64\<close>\<close>

lemma sint_sub_exact:
  fixes a b :: int64
  assumes "0 < sint a" and "sint a \<le> sint b"
  shows "sint (b - a) = sint b - sint a"
proof -
  have "sint b < 2 ^ 63"
    using sint_lt [of b] by simp
  then have "- (2 ^ 63) \<le> sint b - sint a" and "sint b - sint a < 2 ^ 63"
    using assms by simp_all
  then show ?thesis
    by (simp add: sint_word_ariths signed_take_bit_int_eq_self)
qed

lemma sint_add_exact:
  fixes a b :: int64
  assumes "0 \<le> sint b" and "0 < sint a" and "sint b + sint a < 2 ^ 63"
  shows "sint (b + a) = sint b + sint a"
proof -
  have "- (2 ^ 63) \<le> sint b + sint a"
    using assms by simp
  with assms show ?thesis
    by (simp add: sint_word_ariths signed_take_bit_int_eq_self)
qed

lemma sint_add_wraps:
  fixes a b :: int64
  assumes "2 ^ 63 \<le> sint b + sint a"
  shows "sint (b + a) = sint b + sint a - 2 ^ 64"
proof -
  define k where "k = sint b + sint a"
  have "sint b < 2 ^ 63" and "sint a < 2 ^ 63"
    using sint_lt [of b] sint_lt [of a] by simp_all
  then have up: "k < 2 ^ 64"
    by (simp add: k_def)
  have lo: "2 ^ 63 \<le> k"
    using assms by (simp add: k_def)
  have "(k + 2 ^ 63) mod 2 ^ 64 = (k + 2 ^ 63 - 2 ^ 64) mod 2 ^ 64"
    by (simp only: minus_mod_self2)
  also have "\<dots> = k + 2 ^ 63 - 2 ^ 64"
    using lo up by (intro mod_pos_pos_trivial) simp_all
  finally have "signed_take_bit 63 k = k - 2 ^ 64"
    by (simp add: signed_take_bit_eq_take_bit_shift take_bit_eq_mod)
  then show ?thesis
    by (simp add: sint_word_ariths k_def)
qed

lemma uint_add_mod:
  fixes a b :: int64
  shows "uint (b + a) = (sint b + sint a) mod 2 ^ 64"
proof -
  have e: "word_of_int (sint b + sint a) = b + a"
    by simp
  have "uint (word_of_int (sint b + sint a) :: int64) = (sint b + sint a) mod 2 ^ 64"
    unfolding uint_word_of_int by simp
  then show ?thesis
    unfolding e .
qed

section \<open>The paths of \<open>ProcessTransaction\<close>\<close>

lemma PT_credit:
  assumes "wallets d w = Some b" and "0 < sint a"
  shows "PostgresRepository_ProcessTransaction no_faults d w a True =
     (None, d\<lparr>wallets := (wallets d)(w \<mapsto> b + a),
              calls := calls d @ [BeginTx, QueryExists w, QueryBalanceForUpdate w,
                                  ExecUpdate (b + a) w, Commit, Rollback]\<rparr>)"
  using assms
  by (simp add: PostgresRepository_ProcessTransaction_def issue_def Let_def no_faults_def)

lemma PT_debit:
  assumes "wallets d w = Some b" and "0 < sint a" and "sint a \<le> sint b"
  shows "PostgresRepository_ProcessTransaction no_faults d w a False =
     (None, d\<lparr>wallets := (wallets d)(w \<mapsto> b - a),
              calls := calls d @ [BeginTx, QueryExists w, QueryBalanceForUpdate w,
                                  ExecUpdate (b - a) w, Commit, Rollback]\<rparr>)"
  using assms
  by (simp add: PostgresRepository_ProcessTransaction_def issue_def Let_def no_faults_def)

lemma PT_insufficient:
  assumes "wallets d w = Some b" and "0 < sint a" and "sint b < sint a"
    and "\<not> fails BeginTx" and "\<not> fails (QueryExists w)"
    and "\<not> fails (QueryBalanceForUpdate w)"
  shows "PostgresRepository_ProcessTransaction fails d w a False =
     (Some ErrInsufficientFunds,
      d\<lparr>calls := calls d @ [BeginTx, QueryExists w, QueryBalanceForUpdate w, Rollback]\<rparr>)"
  using assms
  by (simp add: PostgresRepository_ProcessTransaction_def issue_def Let_def)

lemma PT_not_found:
  assumes "wallets d w = None" and "0 < sint a"
    and "\<not> fails BeginTx" and "\<not> fails (QueryExists w)"
  shows "PostgresRepository_ProcessTransaction fails d w a dep =
     (Some ErrWalletNotFound, d\<lparr>calls := calls d @ [BeginTx, QueryExists w, Rollback]\<rparr>)"
  using assms
  by (simp add: PostgresRepository_ProcessTransaction_def issue_def Let_def)

lemma PT_rejection_keeps_wallets:
  assumes "PostgresRepository_ProcessTransaction fails d w a dep = (Some e, d')"
    and "e \<in> {ErrInvalidAmount, ErrInvalidOperation, ErrWalletNotFound, ErrInsufficientFunds}"
  shows "wallets d' = wallets d
     \<and> (\<exists>cs. calls d' = calls d @ cs \<and> (\<forall>v k. ExecUpdate v k \<notin> set cs) \<and> Commit \<notin> set cs)"
  using assms
  by (auto simp add: PostgresRepository_ProcessTransaction_def issue_def Let_def
      split: if_splits option.splits)

lemma processRequest_rejection_keeps_wallets:
  assumes "processRequest fails d req = (Some e, d')"
    and "e \<in> {ErrInvalidAmount, ErrInvalidOperation, ErrWalletNotFound, ErrInsufficientFunds}"
  shows "wallets d' = wallets d
     \<and> (\<exists>cs. calls d' = calls d @ cs \<and> (\<forall>v k. ExecUpdate v k \<notin> set cs) \<and> Commit \<notin> set cs)"
proof (cases "OperationType (req_t req) = Deposit \<or> OperationType (req_t req) = Withdraw")
  case True
  then obtain dep where
    "PostgresRepository_ProcessTransaction fails d (WalletID (req_t req)) (Amount (req_t req)) dep
       = (Some e, d')"
    using assms(1) by (auto simp add: processRequest_def split: if_splits)
  then show ?thesis
    using assms(2) by (rule PT_rejection_keeps_wallets)
next
  case False
  then have "d' = d"
    using assms(1) by (simp add: processRequest_def)
  then show ?thesis
    by simp
qed

section \<open>Sequences of deposits and withdrawals\<close>

lemma PT_effect:
  "wallets (snd (PostgresRepository_ProcessTransaction fails d w a dep)) = wallets d
   \<or> (\<exists>b. wallets d w = Some b \<and> 0 < sint a \<and> (dep \<or> sint a \<le> sint b)
          \<and> wallets (snd (PostgresRepository_ProcessTransaction fails d w a dep)) =
              (wallets d)(w \<mapsto> (if dep then b + a else b - a)))"
  by (auto simp add: PostgresRepository_ProcessTransaction_def issue_def Let_def
      split: option.splits)

lemma PT_keeps_nonneg:
  assumes "nonneg_balance d v"
    and "case wallets d w of None \<Rightarrow> True | Some b \<Rightarrow> \<not> dep \<or> sint b + sint a < 2 ^ 63"
  shows "nonneg_balance (snd (PostgresRepository_ProcessTransaction fails d w a dep)) v"
proof -
  let ?d' = "snd (PostgresRepository_ProcessTransaction fails d w a dep)"
  consider (same) "wallets ?d' = wallets d"
    | (upd) b where "wallets d w = Some b" "0 < sint a" "dep \<or> sint a \<le> sint b"
        "wallets ?d' = (wallets d)(w \<mapsto> (if dep then b + a else b - a))"
    using PT_effect [of fails d w a dep] by blast
  then show ?thesis
  proof cases
    case same
    then show ?thesis
      using assms(1) by (simp add: nonneg_balance_def)
  next
    case upd
    show ?thesis
    proof (cases "v = w")
      case False
      then show ?thesis
        using assms(1) upd(4) by (simp add: nonneg_balance_def)
    next
      case True
      then have b0: "0 \<le> sint b"
        using assms(1) upd(1) by (simp add: nonneg_balance_def)
      have "0 \<le> sint (if dep then b + a else b - a)"
      proof (cases dep)
        case True
        then have "sint b + sint a < 2 ^ 63"
          using assms(2) upd(1) by simp
        then have "sint (b + a) = sint b + sint a"
          using b0 upd(2) by (intro sint_add_exact)
        then show ?thesis
          using True b0 upd(2) by simp
      next
        case False
        then have "sint a \<le> sint b"
          using upd(3) by simp
        then have "sint (b - a) = sint b - sint a"
          using upd(2) by (intro sint_sub_exact)
        then show ?thesis
          using False \<open>sint a \<le> sint b\<close> by simp
      qed
      then show ?thesis
        using True upd(4) by (simp add: nonneg_balance_def)
    qed
  qed
qed

lemma apply_ops_keeps_nonneg:
  "nonneg_balance d v \<Longrightarrow> credits_fit d ops \<Longrightarrow> nonneg_balance (apply_ops d ops) v"
proof (induction ops arbitrary: d)
  case Nil
  then show ?case by simp
next
  case (Cons op ops)
  obtain fails w a dep where op: "op = (fails, w, a, dep)"
    by (cases op) auto
  let ?d' = "snd (PostgresRepository_ProcessTransaction fails d w a dep)"
  have "nonneg_balance ?d' v"
    using Cons.prems op by (intro PT_keeps_nonneg) simp_all
  moreover have "credits_fit ?d' ops"
    using Cons.prems(2) op by simp
  ultimately show ?case
    using Cons.IH [of ?d'] op by simp
qed

lemma debits_fit: "list_all is_debit ops \<Longrightarrow> credits_fit d ops"
proof (induction ops arbitrary: d)
  case Nil
  then show ?case by simp
next
  case (Cons op ops)
  then show ?case
    by (cases op) (auto split: option.splits)
qed

section \<open>The shard router\<close>

lemma sint_ucast_hash:
  fixes h :: uint32
  shows "sint (ucast h :: go_int) = uint h"
proof -
  have lt: "uint h < 2 ^ 32"
    using uint_lt2p [of h] by simp
  have u: "uint (ucast h :: go_int) = uint h"
    using lt by (simp add: unsigned_ucast_eq take_bit_int_eq_self)
  have lo: "- (2 ^ 63) \<le> uint h"
    by (rule order_trans [OF _ uint_ge_0]) simp
  have hi: "uint h < 2 ^ 63"
    using lt by simp
  have "sint (ucast h :: go_int) = signed_take_bit 63 (uint (ucast h :: go_int))"
    by (simp add: sint_uint)
  also have "\<dots> = uint h"
    unfolding u using lo hi by (rule signed_take_bit_int_eq_self)
  finally show ?thesis .
qed

lemma go_rem_range:
  fixes a n :: go_int
  assumes "0 \<le> sint a" and "0 < sint n"
  shows "\<exists>k. go_rem a n = Returns k \<and> sint k = sint a mod sint n
            \<and> 0 \<le> sint k \<and> sint k < sint n"
proof -
  let ?r = "sint a mod sint n"
  have n0: "n \<noteq> 0"
    using assms(2) by auto
  have sm: "sint a smod sint n = ?r"
    using assms by (intro smod_mod_positive) simp_all
  have r0: "0 \<le> ?r" and rn: "?r < sint n"
    using assms(2) by simp_all
  have "sint n < 2 ^ 63"
    using sint_lt [of n] by simp
  then have "?r < 2 ^ 63"
    using rn by simp
  moreover have "- (2 ^ 63) \<le> ?r"
    by (rule order_trans [OF _ r0]) simp
  ultimately have "sint (word_of_int ?r :: go_int) = ?r"
    by (simp add: sint_sbintrunc' signed_take_bit_int_eq_self)
  then show ?thesis
    using n0 sm r0 rn by (simp add: go_rem_def)
qed

lemma getShard_range:
  assumes "0 < sint (workers s)"
  shows "\<exists>k. getShard s w = Returns k \<and> 0 \<le> sint k \<and> sint k < sint (workers s)"
proof -
  have "0 \<le> sint (ucast (sum32a_Write offset32 w) :: go_int)"
    unfolding sint_ucast_hash by simp
  then show ?thesis
    using go_rem_range [OF _ assms, of "ucast (sum32a_Write offset32 w)"]
    by (auto simp add: getShard_def Let_def)
qed

section \<open>The send and the shutdown\<close>

lemma send_keeps_workers:
  "workers (snd (ProcessTransaction_send s rc tr)) = workers s"
  by (simp add: ProcessTransaction_send_def Let_def split: go.splits)

lemma send_keeps_repo:
  "repo (snd (ProcessTransaction_send s rc tr)) = repo s"
  by (simp add: ProcessTransaction_send_def Let_def split: go.splits)

lemma send_keeps_lanes_ok:
  "lanes_ok s \<Longrightarrow> lanes_ok (snd (ProcessTransaction_send s rc tr))"
  by (simp add: ProcessTransaction_send_def lanes_ok_def Let_def split: go.splits)

lemma Shutdown_keeps_workers:
  "Shutdown fails s = Returns s' \<Longrightarrow> workers s' = workers s \<and> length (queues s') = length (queues s)"
  by (auto simp add: Shutdown_def Let_def split: if_splits)

lemma NewWalletService_lanes_ok:
  "0 < sint n \<Longrightarrow> sint n \<le> max_slice_len \<Longrightarrow>
     \<exists>s. NewWalletService r n = Returns s \<and> lanes_ok s \<and> repo s = r"
  by (simp add: NewWalletService_def max_slice_len_def lanes_ok_def)

lemma send_rejects_amount:
  "sint (Amount tr) \<le> 0 \<Longrightarrow> ProcessTransaction_send s rc tr = (Rejected ErrInvalidAmount, s)"
  by (simp add: ProcessTransaction_send_def)

lemma send_rejected_only_amount:
  "ProcessTransaction_send s rc tr = (Rejected e, s') \<Longrightarrow>
     e = ErrInvalidAmount \<and> s' = s \<and> sint (Amount tr) \<le> 0"
  by (auto simp add: ProcessTransaction_send_def Let_def split: if_splits go.splits)

lemma send_ignores_kind:
  "fst (ProcessTransaction_send s rc (tr\<lparr>OperationType := k\<rparr>)) = fst (ProcessTransaction_send s rc tr)"
  by (simp add: ProcessTransaction_send_def Let_def split: go.splits)

lemma send_open_lane:
  assumes "lanes_ok s" and "0 < sint (Amount tr)"
    and "\<forall>q \<in> set (queues s). \<not> closed q \<and> length (buf q) < queue_cap"
  shows "\<exists>i. fst (ProcessTransaction_send s rc tr) = Enqueued i \<and> i < length (queues s)
           \<and> buf (queues (snd (ProcessTransaction_send s rc tr)) ! i) =
               buf (queues s ! i) @ [\<lparr>req_t = tr, req_result = rc\<rparr>]"
proof -
  obtain k where k: "getShard s (WalletID tr) = Returns k" "0 \<le> sint k"
      "sint k < sint (workers s)"
    using getShard_range [of s "WalletID tr"] assms(1) by (auto simp add: lanes_ok_def)
  then have i: "nat (sint k) < length (queues s)"
    using assms(1) by (simp add: lanes_ok_def)
  then have "queues s ! nat (sint k) \<in> set (queues s)"
    by simp
  then have "\<not> closed (queues s ! nat (sint k))"
    and "length (buf (queues s ! nat (sint k))) < queue_cap"
    using assms(3) by blast+
  then show ?thesis
    using k i assms(2) by (simp add: ProcessTransaction_send_def Let_def)
qed

lemma processRequest_invalid_kind:
  "OperationType (req_t req) \<noteq> Deposit \<Longrightarrow> OperationType (req_t req) \<noteq> Withdraw \<Longrightarrow>
     processRequest fails d req = (Some ErrInvalidOperation, d)"
  by (simp add: processRequest_def)

lemma send_after_Shutdown:
  assumes "Shutdown fails s = Returns s'" and "0 < sint (Amount tr)"
  shows "\<exists>m. ProcessTransaction_send s' rc tr = (Panicked m, s')
           \<and> (lanes_ok s \<longrightarrow> m = ''send on closed channel'')"
proof -
  have s': "workers s' = workers s" "queues s' = map (\<lambda>q. \<lparr>buf = [], closed = True\<rparr>) (queues s)"
    using assms(1) by (auto simp add: Shutdown_def Let_def split: if_splits)
  show ?thesis
  proof (cases "lanes_ok s")
    case True
    then obtain k where k: "getShard s' (WalletID tr) = Returns k" "0 \<le> sint k"
      "sint k < sint (workers s')"
      using getShard_range [of s' "WalletID tr"] s'(1) by (auto simp add: lanes_ok_def)
    then have "nat (sint k) < length (queues s)"
      using True s'(1) by (simp add: lanes_ok_def)
    then show ?thesis
      using k assms(2) s'(2) True by (simp add: ProcessTransaction_send_def Let_def)
  next
    case False
    show ?thesis
    proof (cases "getShard s' (WalletID tr)")
      case (Panics m)
      then show ?thesis
        using assms(2) False by (simp add: ProcessTransaction_send_def)
    next
      case (Returns k)
      then show ?thesis
        using assms(2) False s'(2) by (simp add: ProcessTransaction_send_def Let_def)
    qed
  qed
qed

section \<open>Claims about the repository\<close>

text \<open>
  C1 (balance non-negativity), as the code has it.  The withdrawal path is guarded and never
  takes a non-negative balance below zero; the deposit path adds without a guard, so it
  keeps a non-negative balance non-negative exactly as long as the sum is representable.
  Hence: from a non-negative committed balance (a created wallet holds 0), every sequence
  of calls in which no deposit exceeds the largest \<open>int64\<close> keeps the balance non-negative,
  and so does every sequence of withdrawals, whatever the amounts and whatever calls of the
  store fail.
\<close>

theorem balance_nonneg_invariant:
  assumes "nonneg_balance d w"
  shows "(credits_fit d ops \<longrightarrow> nonneg_balance (apply_ops d ops) w)
       \<and> (list_all is_debit ops \<longrightarrow> nonneg_balance (apply_ops d ops) w)"
  using assms apply_ops_keeps_nonneg [of d w ops] debits_fit [of ops d] by blast

text \<open>
  A created wallet, then a deposit of 1500, a refused withdrawal of 2000 and a withdrawal of
  500; and a lone withdrawal of 100.
\<close>

theorem balance_nonneg_invariant_witness:
  "nonneg_balance (snd (PostgresRepository_CreateWallet (Inserted ''w1'') empty_db)) ''w1''
   \<and> credits_fit (snd (PostgresRepository_CreateWallet (Inserted ''w1'') empty_db))
        [(no_faults, ''w1'', 1500, True), (no_faults, ''w1'', 2000, False),
         (no_faults, ''w1'', 500, False)]
   \<and> nonneg_balance
        (apply_ops (snd (PostgresRepository_CreateWallet (Inserted ''w1'') empty_db))
           [(no_faults, ''w1'', 1500, True), (no_faults, ''w1'', 2000, False),
            (no_faults, ''w1'', 500, False)]) ''w1''
   \<and> list_all is_debit [(no_faults, ''w1'', 100, False)]
   \<and> nonneg_balance
        (apply_ops (snd (PostgresRepository_CreateWallet (Inserted ''w1'') empty_db))
           [(no_faults, ''w1'', 100, False)]) ''w1''"
  using balance_nonneg_invariant
    [of "snd (PostgresRepository_CreateWallet (Inserted ''w1'') empty_db)" "''w1''"
        "[(no_faults, ''w1'', 1500, True), (no_faults, ''w1'', 2000, False),
          (no_faults, ''w1'', 500, False)]"]
    balance_nonneg_invariant
    [of "snd (PostgresRepository_CreateWallet (Inserted ''w1'') empty_db)" "''w1''"
        "[(no_faults, ''w1'', 100, False)]"]
  by (simp add: PostgresRepository_CreateWallet_def empty_db_def no_faults_def issue_def
      nonneg_balance_def PostgresRepository_ProcessTransaction_def Let_def)

text \<open>
  The claim as written fails: on a created wallet a deposit of \<open>2 ^ 63 - 1\<close> and a deposit
  of 1 both return \<open>nil\<close>, and the committed balance is then \<open>- 2 ^ 63\<close>.
\<close>

theorem balance_nonneg_counterexample:
  "wallets (snd (PostgresRepository_CreateWallet (Inserted ''w1'') empty_db)) ''w1'' = Some 0
   \<and> fst (PostgresRepository_ProcessTransaction no_faults
           (snd (PostgresRepository_CreateWallet (Inserted ''w1'') empty_db))
           ''w1'' 9223372036854775807 True) = None
   \<and> fst (PostgresRepository_ProcessTransaction no_faults
           (snd (PostgresRepository_ProcessTransaction no_faults
              (snd (PostgresRepository_CreateWallet (Inserted ''w1'') empty_db))
              ''w1'' 9223372036854775807 True))
           ''w1'' 1 True) = None
   \<and> wallets (apply_ops (snd (PostgresRepository_CreateWallet (Inserted ''w1'') empty_db))
        [(no_faults, ''w1'', 9223372036854775807, True), (no_faults, ''w1'', 1, True)]) ''w1''
       = Some 9223372036854775808
   \<and> sint (9223372036854775808 :: int64) = - 9223372036854775808
   \<and> \<not> nonneg_balance
        (apply_ops (snd (PostgresRepository_CreateWallet (Inserted ''w1'') empty_db))
           [(no_faults, ''w1'', 9223372036854775807, True), (no_faults, ''w1'', 1, True)])
        ''w1''"
  by (simp add: PostgresRepository_CreateWallet_def empty_db_def no_faults_def issue_def
      nonneg_balance_def PostgresRepository_ProcessTransaction_def Let_def)

text \<open>
  C2 (executor success postcondition).  For an existing wallet with committed balance \<open>b\<close>
  and an amount \<open>a > 0\<close>, with no failure of the store: a deposit returns \<open>nil\<close> and
  commits the balance \<open>b + a\<close>, a withdrawal with \<open>a \<le> b\<close> returns \<open>nil\<close> and commits
  \<open>b - a\<close>.  Here \<open>+\<close> and \<open>-\<close> are those of \<open>int64\<close>, as in the source; the difference is
  the exact integer difference, the sum is the exact integer sum whenever that is
  representable.  The table changes at this wallet's row only, and the statements issued are
  exactly one \<open>UPDATE\<close> of this row inside one committed transaction.
\<close>

theorem executor_success_postcondition:
  assumes "wallets d w = Some b" and "0 < sint a"
  shows "PostgresRepository_ProcessTransaction no_faults d w a True =
           (None, d\<lparr>wallets := (wallets d)(w \<mapsto> b + a),
                    calls := calls d @ [BeginTx, QueryExists w, QueryBalanceForUpdate w,
                                        ExecUpdate (b + a) w, Commit, Rollback]\<rparr>)
       \<and> (0 \<le> sint b \<and> sint b + sint a < 2 ^ 63 \<longrightarrow> sint (b + a) = sint b + sint a)
       \<and> (sint a \<le> sint b \<longrightarrow>
            PostgresRepository_ProcessTransaction no_faults d w a False =
              (None, d\<lparr>wallets := (wallets d)(w \<mapsto> b - a),
                       calls := calls d @ [BeginTx, QueryExists w, QueryBalanceForUpdate w,
                                           ExecUpdate (b - a) w, Commit, Rollback]\<rparr>)
            \<and> sint (b - a) = sint b - sint a)"
  using assms PT_credit [OF assms] PT_debit [OF assms] sint_add_exact [of b a]
    sint_sub_exact [of a b]
  by simp

text \<open>The scenario of a wallet holding 1500 and an amount of 500, both directions.\<close>

theorem executor_success_postcondition_witness:
  "wallets (empty_db\<lparr>wallets := (wallets empty_db)(''w1'' \<mapsto> 1500)\<rparr>) ''w1'' = Some 1500
   \<and> 0 < sint (500 :: int64)
   \<and> PostgresRepository_ProcessTransaction no_faults
        (empty_db\<lparr>wallets := (wallets empty_db)(''w1'' \<mapsto> 1500)\<rparr>) ''w1'' 500 True =
        (None, \<lparr>wallets = (wallets empty_db)(''w1'' \<mapsto> 2000),
                calls = [BeginTx, QueryExists ''w1'', QueryBalanceForUpdate ''w1'',
                         ExecUpdate 2000 ''w1'', Commit, Rollback]\<rparr>)
   \<and> PostgresRepository_ProcessTransaction no_faults
        (empty_db\<lparr>wallets := (wallets empty_db)(''w1'' \<mapsto> 1500)\<rparr>) ''w1'' 500 False =
        (None, \<lparr>wallets = (wallets empty_db)(''w1'' \<mapsto> 1000),
                calls = [BeginTx, QueryExists ''w1'', QueryBalanceForUpdate ''w1'',
                         ExecUpdate 1000 ''w1'', Commit, Rollback]\<rparr>)"
  using executor_success_postcondition
    [of "empty_db\<lparr>wallets := (wallets empty_db)(''w1'' \<mapsto> 1500)\<rparr>" "''w1''" 1500 500]
  by (simp add: empty_db_def)

text \<open>
  C3 (insufficient-funds atomicity).  A withdrawal of \<open>a > 0\<close> from an existing wallet with
  balance \<open>b < a\<close> returns \<open>ErrInsufficientFunds\<close>; the table is unchanged and the
  transaction issued the two reads and the rollback, no \<open>UPDATE\<close> and no \<open>Commit\<close>.  More
  generally, whenever the worker's handling of a request, or the repository call itself,
  ends with \<open>ErrInvalidAmount\<close>, \<open>ErrInvalidOperation\<close>, \<open>ErrWalletNotFound\<close> or
  \<open>ErrInsufficientFunds\<close>, the whole table is unchanged and neither an \<open>UPDATE\<close> nor a
  \<open>Commit\<close> was issued; a request rejected before the send leaves the service as it was.
\<close>

theorem insufficient_funds_atomicity:
  "(wallets d w = Some b \<and> 0 < sint a \<and> sint b < sint a
      \<and> \<not> fails BeginTx \<and> \<not> fails (QueryExists w) \<and> \<not> fails (QueryBalanceForUpdate w)
     \<longrightarrow> PostgresRepository_ProcessTransaction fails d w a False =
           (Some ErrInsufficientFunds,
            d\<lparr>calls := calls d @ [BeginTx, QueryExists w, QueryBalanceForUpdate w, Rollback]\<rparr>))
   \<and> (processRequest fails d req = (Some e, d')
        \<and> e \<in> {ErrInvalidAmount, ErrInvalidOperation, ErrWalletNotFound, ErrInsufficientFunds}
     \<longrightarrow> wallets d' = wallets d
         \<and> (\<exists>cs. calls d' = calls d @ cs \<and> (\<forall>v k. ExecUpdate v k \<notin> set cs) \<and> Commit \<notin> set cs))
   \<and> (PostgresRepository_ProcessTransaction fails d w a dep = (Some e, d')
        \<and> e \<in> {ErrInvalidAmount, ErrInvalidOperation, ErrWalletNotFound, ErrInsufficientFunds}
     \<longrightarrow> wallets d' = wallets d
         \<and> (\<exists>cs. calls d' = calls d @ cs \<and> (\<forall>v k. ExecUpdate v k \<notin> set cs) \<and> Commit \<notin> set cs))
   \<and> (ProcessTransaction_send s rc tr = (Rejected e, s') \<longrightarrow> s' = s)"
proof (intro conjI impI)
  assume "wallets d w = Some b \<and> 0 < sint a \<and> sint b < sint a
      \<and> \<not> fails BeginTx \<and> \<not> fails (QueryExists w) \<and> \<not> fails (QueryBalanceForUpdate w)"
  then show "PostgresRepository_ProcessTransaction fails d w a False =
           (Some ErrInsufficientFunds,
            d\<lparr>calls := calls d @ [BeginTx, QueryExists w, QueryBalanceForUpdate w, Rollback]\<rparr>)"
    using PT_insufficient [of d w b a fails] by blast
next
  assume h: "processRequest fails d req = (Some e, d')
        \<and> e \<in> {ErrInvalidAmount, ErrInvalidOperation, ErrWalletNotFound, ErrInsufficientFunds}"
  show "wallets d' = wallets d"
    using processRequest_rejection_keeps_wallets [of fails d req e d'] h by blast
  show "\<exists>cs. calls d' = calls d @ cs \<and> (\<forall>v k. ExecUpdate v k \<notin> set cs) \<and> Commit \<notin> set cs"
    using processRequest_rejection_keeps_wallets [of fails d req e d'] h by blast
next
  assume h: "PostgresRepository_ProcessTransaction fails d w a dep = (Some e, d')
        \<and> e \<in> {ErrInvalidAmount, ErrInvalidOperation, ErrWalletNotFound, ErrInsufficientFunds}"
  show "wallets d' = wallets d"
    using PT_rejection_keeps_wallets [of fails d w a dep e d'] h by blast
  show "\<exists>cs. calls d' = calls d @ cs \<and> (\<forall>v k. ExecUpdate v k \<notin> set cs) \<and> Commit \<notin> set cs"
    using PT_rejection_keeps_wallets [of fails d w a dep e d'] h by blast
next
  assume "ProcessTransaction_send s rc tr = (Rejected e, s')"
  then show "s' = s"
    by (auto simp add: ProcessTransaction_send_def Let_def split: if_splits go.splits)
qed

text \<open>Scenario 3 of the specification: a withdrawal of 2000 from a balance of 1500.\<close>

theorem insufficient_funds_atomicity_witness:
  "PostgresRepository_ProcessTransaction no_faults
      \<lparr>wallets = [''w1'' \<mapsto> 1500], calls = []\<rparr> ''w1'' 2000 False =
     (Some ErrInsufficientFunds,
      \<lparr>wallets = [''w1'' \<mapsto> 1500],
       calls = [BeginTx, QueryExists ''w1'', QueryBalanceForUpdate ''w1'', Rollback]\<rparr>)
   \<and> processRequest no_faults \<lparr>wallets = [''w1'' \<mapsto> 1500], calls = []\<rparr>
        \<lparr>req_t = \<lparr>WalletID = ''w1'', OperationType = ''WITHDRAW'', Amount = 2000\<rparr>,
         req_result = 0\<rparr> =
     (Some ErrInsufficientFunds,
      \<lparr>wallets = [''w1'' \<mapsto> 1500],
       calls = [BeginTx, QueryExists ''w1'', QueryBalanceForUpdate ''w1'', Rollback]\<rparr>)
   \<and> ProcessTransaction_send
        \<lparr>repo = empty_db, queues = [\<lparr>buf = [], closed = False\<rparr>], workers = 1\<rparr> 0
        \<lparr>WalletID = ''w1'', OperationType = ''DEPOSIT'', Amount = - 5\<rparr> =
     (Rejected ErrInvalidAmount,
      \<lparr>repo = empty_db, queues = [\<lparr>buf = [], closed = False\<rparr>], workers = 1\<rparr>)"
  using insufficient_funds_atomicity
    [where d = "\<lparr>wallets = [''w1'' \<mapsto> 1500], calls = []\<rparr>" and w = "''w1''" and b = 1500
       and a = 2000 and fails = no_faults and dep = False and e = ErrInsufficientFunds
       and d' = "\<lparr>wallets = [''w1'' \<mapsto> 1500],
                 calls = [BeginTx, QueryExists ''w1'', QueryBalanceForUpdate ''w1'', Rollback]\<rparr>"
       and req = "\<lparr>req_t = \<lparr>WalletID = ''w1'', OperationType = ''WITHDRAW'', Amount = 2000\<rparr>,
                   req_result = 0\<rparr>"
       and s = "\<lparr>repo = empty_db, queues = [\<lparr>buf = [], closed = False\<rparr>], workers = 1\<rparr>"
       and s' = "\<lparr>repo = empty_db, queues = [\<lparr>buf = [], closed = False\<rparr>], workers = 1\<rparr>"
       and rc = 0
       and tr = "\<lparr>WalletID = ''w1'', OperationType = ''DEPOSIT'', Amount = - 5\<rparr>"]
  by (simp add: no_faults_def processRequest_def Deposit_def Withdraw_def
      PostgresRepository_ProcessTransaction_def issue_def Let_def ProcessTransaction_send_def)

text \<open>
  C5 (wallet not found).  For an identifier without a row and an amount \<open>a > 0\<close>, in either
  direction, when opening the transaction and the existence query succeed, the call returns
  \<open>ErrWalletNotFound\<close>, the table is unchanged and only the existence query was issued before
  the rollback: the balance is never read, so a withdrawal does not end with
  \<open>ErrInsufficientFunds\<close>.  The lane worker passes the same result on for a request of
  either recognised operation type.
\<close>

theorem wallet_not_found:
  assumes "wallets d w = None" and "0 < sint a"
    and "\<not> fails BeginTx" and "\<not> fails (QueryExists w)"
  shows "PostgresRepository_ProcessTransaction fails d w a dep =
           (Some ErrWalletNotFound, d\<lparr>calls := calls d @ [BeginTx, QueryExists w, Rollback]\<rparr>)
       \<and> wallets (snd (PostgresRepository_ProcessTransaction fails d w a dep)) = wallets d
       \<and> fst (PostgresRepository_ProcessTransaction fails d w a False) \<noteq> Some ErrInsufficientFunds
       \<and> ((OperationType (req_t req) = Deposit \<or> OperationType (req_t req) = Withdraw)
            \<and> WalletID (req_t req) = w \<and> Amount (req_t req) = a
          \<longrightarrow> processRequest fails d req =
               (Some ErrWalletNotFound, d\<lparr>calls := calls d @ [BeginTx, QueryExists w, Rollback]\<rparr>))"
  using PT_not_found [OF assms, of True] PT_not_found [OF assms, of False]
  by (cases dep) (auto simp add: processRequest_def)

text \<open>Scenario 5 of the specification: a withdrawal of 100 from "nonexistent".\<close>

theorem wallet_not_found_witness:
  "wallets empty_db ''nonexistent'' = None \<and> 0 < sint (100 :: int64)
   \<and> \<not> no_faults BeginTx \<and> \<not> no_faults (QueryExists ''nonexistent'')
   \<and> PostgresRepository_ProcessTransaction no_faults empty_db ''nonexistent'' 100 False =
       (Some ErrWalletNotFound,
        empty_db\<lparr>calls := calls empty_db @ [BeginTx, QueryExists ''nonexistent'', Rollback]\<rparr>)
   \<and> processRequest no_faults empty_db
        \<lparr>req_t = \<lparr>WalletID = ''nonexistent'', OperationType = ''WITHDRAW'', Amount = 100\<rparr>,
         req_result = 0\<rparr> =
       (Some ErrWalletNotFound,
        empty_db\<lparr>calls := calls empty_db @ [BeginTx, QueryExists ''nonexistent'', Rollback]\<rparr>)"
  using wallet_not_found [where d = empty_db and w = "''nonexistent''" and a = 100
      and fails = no_faults and dep = False
      and req = "\<lparr>req_t = \<lparr>WalletID = ''nonexistent'', OperationType = ''WITHDRAW'',
                          Amount = 100\<rparr>, req_result = 0\<rparr>"]
  by (simp add: empty_db_def no_faults_def Withdraw_def)

text \<open>
  C8 (conservation round trip).  On a wallet with committed balance 0 and for every amount
  \<open>A > 0\<close>, with no failure of the store: the deposit of \<open>A\<close> returns \<open>nil\<close> and commits
  the balance \<open>A\<close> with one \<open>UPDATE\<close> of this row in one committed transaction; the
  withdrawal of \<open>A\<close> that follows returns \<open>nil\<close> and commits the balance 0, again with
  one \<open>UPDATE\<close> in one committed transaction.  The committed balance is 0 again and the
  whole table is as before the two calls.
\<close>

theorem conservation_round_trip:
  assumes "wallets d w = Some 0" and "0 < sint A"
  shows "PostgresRepository_ProcessTransaction no_faults d w A True =
           (None, d\<lparr>wallets := (wallets d)(w \<mapsto> A),
                    calls := calls d @ [BeginTx, QueryExists w, QueryBalanceForUpdate w,
                                        ExecUpdate A w, Commit, Rollback]\<rparr>)
       \<and> wallets (snd (PostgresRepository_ProcessTransaction no_faults d w A True)) w = Some A
       \<and> PostgresRepository_ProcessTransaction no_faults
            (snd (PostgresRepository_ProcessTransaction no_faults d w A True)) w A False =
           (None, d\<lparr>wallets := (wallets d)(w \<mapsto> 0),
                    calls := calls d @ [BeginTx, QueryExists w, QueryBalanceForUpdate w,
                                        ExecUpdate A w, Commit, Rollback,
                                        BeginTx, QueryExists w, QueryBalanceForUpdate w,
                                        ExecUpdate 0 w, Commit, Rollback]\<rparr>)
       \<and> fst (PostgresRepository_ProcessTransaction no_faults d w A True) = None
       \<and> fst (PostgresRepository_ProcessTransaction no_faults
               (snd (PostgresRepository_ProcessTransaction no_faults d w A True)) w A False) = None
       \<and> wallets (snd (PostgresRepository_ProcessTransaction no_faults
               (snd (PostgresRepository_ProcessTransaction no_faults d w A True)) w A False)) w = Some 0
       \<and> wallets (snd (PostgresRepository_ProcessTransaction no_faults
               (snd (PostgresRepository_ProcessTransaction no_faults d w A True)) w A False)) = wallets d"
proof -
  let ?d1 = "d\<lparr>wallets := (wallets d)(w \<mapsto> 0 + A),
              calls := calls d @ [BeginTx, QueryExists w, QueryBalanceForUpdate w,
                                  ExecUpdate (0 + A) w, Commit, Rollback]\<rparr>"
  have c: "PostgresRepository_ProcessTransaction no_faults d w A True = (None, ?d1)"
    using assms by (rule PT_credit)
  have "wallets ?d1 w = Some A"
    by simp
  then have "PostgresRepository_ProcessTransaction no_faults ?d1 w A False =
     (None, ?d1\<lparr>wallets := (wallets ?d1)(w \<mapsto> A - A),
              calls := calls ?d1 @ [BeginTx, QueryExists w, QueryBalanceForUpdate w,
                                  ExecUpdate (A - A) w, Commit, Rollback]\<rparr>)"
    using assms(2) by (rule PT_debit) simp
  moreover have "(wallets d)(w \<mapsto> 0) = wallets d"
    using assms(1) by (simp add: fun_upd_idem)
  ultimately show ?thesis
    using c assms(1) by simp
qed

text \<open>A deposit and a withdrawal of 1500 on a fresh wallet.\<close>

theorem conservation_round_trip_witness:
  "wallets \<lparr>wallets = [''w1'' \<mapsto> 0], calls = []\<rparr> ''w1'' = Some 0 \<and> 0 < sint (1500 :: int64)
   \<and> PostgresRepository_ProcessTransaction no_faults
        \<lparr>wallets = [''w1'' \<mapsto> 0], calls = []\<rparr> ''w1'' 1500 True =
       (None, \<lparr>wallets = [''w1'' \<mapsto> 1500],
               calls = [BeginTx, QueryExists ''w1'', QueryBalanceForUpdate ''w1'',
                        ExecUpdate 1500 ''w1'', Commit, Rollback]\<rparr>)
   \<and> PostgresRepository_ProcessTransaction no_faults
        \<lparr>wallets = [''w1'' \<mapsto> 1500],
         calls = [BeginTx, QueryExists ''w1'', QueryBalanceForUpdate ''w1'',
                  ExecUpdate 1500 ''w1'', Commit, Rollback]\<rparr> ''w1'' 1500 False =
       (None, \<lparr>wallets = [''w1'' \<mapsto> 0],
               calls = [BeginTx, QueryExists ''w1'', QueryBalanceForUpdate ''w1'',
                        ExecUpdate 1500 ''w1'', Commit, Rollback,
                        BeginTx, QueryExists ''w1'', QueryBalanceForUpdate ''w1'',
                        ExecUpdate 0 ''w1'', Commit, Rollback]\<rparr>)
   \<and> wallets (snd (PostgresRepository_ProcessTransaction no_faults
        (snd (PostgresRepository_ProcessTransaction no_faults
               \<lparr>wallets = [''w1'' \<mapsto> 0], calls = []\<rparr> ''w1'' 1500 True)) ''w1'' 1500 False))
        ''w1'' = Some 0"
  using conservation_round_trip [of "\<lparr>wallets = [''w1'' \<mapsto> 0], calls = []\<rparr>" "''w1''" 1500]
  by (simp add: PostgresRepository_ProcessTransaction_def issue_def Let_def no_faults_def)

text \<open>
  C10 (unchecked 64-bit balance arithmetic).  For an existing wallet with balance \<open>b\<close> and a
  deposit of \<open>a > 0\<close> whose exact sum \<open>b + a\<close> exceeds the largest \<open>int64\<close>, with no failure
  of the store: the call returns \<open>nil\<close> and commits the wrapped sum, which is the exact
  sum modulo \<open>2 ^ 64\<close> read as two's complement, that is the exact sum minus \<open>2 ^ 64\<close>, a
  negative number.
\<close>

theorem unchecked_credit_overflow:
  assumes "wallets d w = Some b" and "0 < sint a" and "2 ^ 63 - 1 < sint b + sint a"
  shows "PostgresRepository_ProcessTransaction no_faults d w a True =
           (None, d\<lparr>wallets := (wallets d)(w \<mapsto> b + a),
                    calls := calls d @ [BeginTx, QueryExists w, QueryBalanceForUpdate w,
                                        ExecUpdate (b + a) w, Commit, Rollback]\<rparr>)
       \<and> uint (b + a) = (sint b + sint a) mod 2 ^ 64
       \<and> sint (b + a) = sint b + sint a - 2 ^ 64
       \<and> sint (b + a) < 0"
proof -
  have w: "sint (b + a) = sint b + sint a - 2 ^ 64"
    using assms(3) by (intro sint_add_wraps) simp
  have "sint b < 2 ^ 63" and "sint a < 2 ^ 63"
    using sint_lt [of b] sint_lt [of a] by simp_all
  then have "sint (b + a) < 0"
    unfolding w by simp
  then show ?thesis
    using PT_credit [OF assms(1,2)] w uint_add_mod [of b a] by simp
qed

text \<open>A deposit of 1 on a wallet holding the largest \<open>int64\<close>.\<close>

theorem unchecked_credit_overflow_witness:
  "wallets \<lparr>wallets = [''w1'' \<mapsto> 9223372036854775807], calls = []\<rparr> ''w1''
     = Some 9223372036854775807
   \<and> 0 < sint (1 :: int64)
   \<and> 2 ^ 63 - 1 < sint (9223372036854775807 :: int64) + sint (1 :: int64)
   \<and> PostgresRepository_ProcessTransaction no_faults
        \<lparr>wallets = [''w1'' \<mapsto> 9223372036854775807], calls = []\<rparr> ''w1'' 1 True =
        (None, \<lparr>wallets = [''w1'' \<mapsto> 9223372036854775808],
                calls = [BeginTx, QueryExists ''w1'', QueryBalanceForUpdate ''w1'',
                         ExecUpdate 9223372036854775808 ''w1'', Commit, Rollback]\<rparr>)
   \<and> sint (9223372036854775808 :: int64) = - 9223372036854775808"
  using unchecked_credit_overflow
    [of "\<lparr>wallets = [''w1'' \<mapsto> 9223372036854775807], calls = []\<rparr>" "''w1''"
        9223372036854775807 1]
  by simp

section \<open>Claims about the service\<close>

text \<open>
  C4 (validation before the lane), as the code has it.  A request with an amount \<open>\<le> 0\<close> is
  rejected with \<open>ErrInvalidAmount\<close> before the shard is computed: the service, its lanes and
  its store are untouched, and this is the only rejection before the send.  The operation
  type is not looked at before the send: the outcome of the send is the same for every
  type, a request with a positive amount is put on its lane when the lanes are open and not
  full, and the send never calls the store.  An unrecognised type is rejected by the lane
  worker, with \<open>ErrInvalidOperation\<close> and without any call of the store.
\<close>

theorem pre_lane_validation:
  "(sint (Amount tr) \<le> 0 \<longrightarrow> ProcessTransaction_send s rc tr = (Rejected ErrInvalidAmount, s))
   \<and> (ProcessTransaction_send s rc tr = (Rejected e, s') \<longrightarrow> e = ErrInvalidAmount \<and> s' = s)
   \<and> fst (ProcessTransaction_send s rc (tr\<lparr>OperationType := k\<rparr>))
        = fst (ProcessTransaction_send s rc tr)
   \<and> (lanes_ok s \<and> 0 < sint (Amount tr)
        \<and> (\<forall>q \<in> set (queues s). \<not> closed q \<and> length (buf q) < queue_cap)
      \<longrightarrow> (\<exists>i. fst (ProcessTransaction_send s rc tr) = Enqueued i \<and> i < length (queues s)
             \<and> buf (queues (snd (ProcessTransaction_send s rc tr)) ! i) =
                 buf (queues s ! i) @ [\<lparr>req_t = tr, req_result = rc\<rparr>]))
   \<and> repo (snd (ProcessTransaction_send s rc tr)) = repo s
   \<and> (OperationType (req_t req) \<noteq> Deposit \<and> OperationType (req_t req) \<noteq> Withdraw
      \<longrightarrow> processRequest fails d req = (Some ErrInvalidOperation, d))"
  using send_rejects_amount [of tr s rc] send_rejected_only_amount [of s rc tr e s']
    send_ignores_kind [of s rc k tr] send_open_lane [of s tr rc] send_keeps_repo [of s rc tr]
    processRequest_invalid_kind [of req fails d]
  by blast

text \<open>
  Scenario 6 of the specification (an amount of -5), and the request of the repository's own
  test with the type "INVALID_OPERATION".
\<close>

theorem pre_lane_validation_witness:
  "ProcessTransaction_send
      \<lparr>repo = empty_db, queues = [\<lparr>buf = [], closed = False\<rparr>], workers = 1\<rparr> 0
      \<lparr>WalletID = ''wallet-1'', OperationType = ''DEPOSIT'', Amount = - 5\<rparr> =
     (Rejected ErrInvalidAmount,
      \<lparr>repo = empty_db, queues = [\<lparr>buf = [], closed = False\<rparr>], workers = 1\<rparr>)
   \<and> lanes_ok \<lparr>repo = empty_db, queues = [\<lparr>buf = [], closed = False\<rparr>], workers = 1\<rparr>
   \<and> fst (ProcessTransaction_send
        \<lparr>repo = empty_db, queues = [\<lparr>buf = [], closed = False\<rparr>], workers = 1\<rparr> 0
        \<lparr>WalletID = ''wallet-1'', OperationType = ''INVALID_OPERATION'', Amount = 100\<rparr>)
       = Enqueued 0
   \<and> processRequest no_faults empty_db
        \<lparr>req_t = \<lparr>WalletID = ''wallet-1'', OperationType = ''INVALID_OPERATION'', Amount = 100\<rparr>,
         req_result = 0\<rparr>
       = (Some ErrInvalidOperation, empty_db)"
  using pre_lane_validation
    [where tr = "\<lparr>WalletID = ''wallet-1'', OperationType = ''DEPOSIT'', Amount = - 5\<rparr>"
       and s = "\<lparr>repo = empty_db, queues = [\<lparr>buf = [], closed = False\<rparr>], workers = 1\<rparr>"
       and s' = "\<lparr>repo = empty_db, queues = [\<lparr>buf = [], closed = False\<rparr>], workers = 1\<rparr>"
       and rc = 0 and e = ErrInvalidAmount and k = "''DEPOSIT''" and fails = no_faults
       and d = empty_db
       and req = "\<lparr>req_t = \<lparr>WalletID = ''wallet-1'', OperationType = ''INVALID_OPERATION'',
                           Amount = 100\<rparr>, req_result = 0\<rparr>"]
    pre_lane_validation
    [where tr = "\<lparr>WalletID = ''wallet-1'', OperationType = ''INVALID_OPERATION'', Amount = 100\<rparr>"
       and s = "\<lparr>repo = empty_db, queues = [\<lparr>buf = [], closed = False\<rparr>], workers = 1\<rparr>"
       and s' = "\<lparr>repo = empty_db, queues = [\<lparr>buf = [], closed = False\<rparr>], workers = 1\<rparr>"
       and rc = 0 and e = ErrInvalidAmount and k = "''DEPOSIT''" and fails = no_faults
       and d = empty_db
       and req = "\<lparr>req_t = \<lparr>WalletID = ''wallet-1'', OperationType = ''INVALID_OPERATION'',
                           Amount = 100\<rparr>, req_result = 0\<rparr>"]
  by (simp add: lanes_ok_def queue_cap_def Deposit_def Withdraw_def)

text \<open>
  The claim as written fails for the operation type: with one worker, the request with type
  "INVALID_OPERATION" and amount 100 is not rejected by the send, it is in the buffer of
  lane 0 afterwards.
\<close>

theorem pre_lane_validation_counterexample:
  "NewWalletService empty_db 1 =
     Returns \<lparr>repo = empty_db, queues = [\<lparr>buf = [], closed = False\<rparr>], workers = 1\<rparr>
   \<and> ProcessTransaction_send
        \<lparr>repo = empty_db, queues = [\<lparr>buf = [], closed = False\<rparr>], workers = 1\<rparr> 0
        \<lparr>WalletID = ''wallet-1'', OperationType = ''INVALID_OPERATION'', Amount = 100\<rparr> =
       (Enqueued 0,
        \<lparr>repo = empty_db,
         queues = [\<lparr>buf = [\<lparr>req_t = \<lparr>WalletID = ''wallet-1'',
                                     OperationType = ''INVALID_OPERATION'', Amount = 100\<rparr>,
                            req_result = 0\<rparr>],
                    closed = False\<rparr>],
         workers = 1\<rparr>)"
  by (simp add: NewWalletService_def max_slice_len_def ProcessTransaction_send_def getShard_def go_rem_def
      Let_def queue_cap_def offset32_def prime32_def signed_modulo_int_def)

text \<open>
  C6 (requests after shutdown), as the code has it.  After \<open>Shutdown\<close> has returned, the
  send of \<open>ProcessTransaction\<close> never blocks and never enqueues.  A request with an amount
  \<open>\<le> 0\<close> returns \<open>ErrInvalidAmount\<close>.  A request with a positive amount does not return an
  error: the call panics, and in a service whose lanes agree with a positive worker
  count the panic is that of the send on the closed channel.
\<close>

theorem post_shutdown_send:
  assumes "Shutdown fails s = Returns s'"
  shows "(sint (Amount tr) \<le> 0 \<longrightarrow>
            ProcessTransaction_send s' rc tr = (Rejected ErrInvalidAmount, s'))
       \<and> (0 < sint (Amount tr) \<longrightarrow>
            (\<exists>m. ProcessTransaction_send s' rc tr = (Panicked m, s')
               \<and> (lanes_ok s \<longrightarrow> m = ''send on closed channel'')))
       \<and> (\<forall>i. fst (ProcessTransaction_send s' rc tr) \<noteq> Blocked i
              \<and> fst (ProcessTransaction_send s' rc tr) \<noteq> Enqueued i)"
proof -
  have a: "sint (Amount tr) \<le> 0 \<longrightarrow>
            ProcessTransaction_send s' rc tr = (Rejected ErrInvalidAmount, s')"
    using send_rejects_amount [of tr s' rc] by blast
  have b: "0 < sint (Amount tr) \<longrightarrow>
            (\<exists>m. ProcessTransaction_send s' rc tr = (Panicked m, s')
               \<and> (lanes_ok s \<longrightarrow> m = ''send on closed channel''))"
    using send_after_Shutdown [OF assms, of tr rc] by blast
  have "\<forall>i. fst (ProcessTransaction_send s' rc tr) \<noteq> Blocked i
              \<and> fst (ProcessTransaction_send s' rc tr) \<noteq> Enqueued i"
  proof (cases "sint (Amount tr) \<le> 0")
    case True
    then show ?thesis using a by simp
  next
    case False
    then obtain m where "ProcessTransaction_send s' rc tr = (Panicked m, s')"
      using b by auto
    then show ?thesis by simp
  qed
  then show ?thesis
    using a b by blast
qed

text \<open>A service with one worker, shut down, then an amount of -5 and an amount of 100.\<close>

theorem post_shutdown_send_witness:
  "Shutdown no_faults \<lparr>repo = empty_db, queues = [\<lparr>buf = [], closed = False\<rparr>], workers = 1\<rparr> =
     Returns \<lparr>repo = empty_db, queues = [\<lparr>buf = [], closed = True\<rparr>], workers = 1\<rparr>
   \<and> lanes_ok \<lparr>repo = empty_db, queues = [\<lparr>buf = [], closed = False\<rparr>], workers = 1\<rparr>
   \<and> ProcessTransaction_send
        \<lparr>repo = empty_db, queues = [\<lparr>buf = [], closed = True\<rparr>], workers = 1\<rparr> 0
        \<lparr>WalletID = ''wallet-1'', OperationType = ''DEPOSIT'', Amount = - 5\<rparr> =
       (Rejected ErrInvalidAmount,
        \<lparr>repo = empty_db, queues = [\<lparr>buf = [], closed = True\<rparr>], workers = 1\<rparr>)
   \<and> ProcessTransaction_send
        \<lparr>repo = empty_db, queues = [\<lparr>buf = [], closed = True\<rparr>], workers = 1\<rparr> 0
        \<lparr>WalletID = ''wallet-1'', OperationType = ''DEPOSIT'', Amount = 100\<rparr> =
       (Panicked ''send on closed channel'',
        \<lparr>repo = empty_db, queues = [\<lparr>buf = [], closed = True\<rparr>], workers = 1\<rparr>)"
proof -
  have sh: "Shutdown no_faults
      \<lparr>repo = empty_db, queues = [\<lparr>buf = [], closed = False\<rparr>], workers = 1\<rparr> =
     Returns \<lparr>repo = empty_db, queues = [\<lparr>buf = [], closed = True\<rparr>], workers = 1\<rparr>"
    by (simp add: Shutdown_def)
  have ok: "lanes_ok \<lparr>repo = empty_db, queues = [\<lparr>buf = [], closed = False\<rparr>], workers = 1\<rparr>"
    by (simp add: lanes_ok_def)
  show ?thesis
    using sh ok
      post_shutdown_send [OF sh, where rc = 0
        and tr = "\<lparr>WalletID = ''wallet-1'', OperationType = ''DEPOSIT'', Amount = - 5\<rparr>"]
      post_shutdown_send [OF sh, where rc = 0
        and tr = "\<lparr>WalletID = ''wallet-1'', OperationType = ''DEPOSIT'', Amount = 100\<rparr>"]
    by simp
qed

text \<open>
  The claim as written fails: a service with one worker is shut down, and the deposit of 100
  submitted afterwards ends in a panic, not in a returned error.
\<close>

theorem post_shutdown_counterexample:
  "NewWalletService empty_db 1 =
     Returns \<lparr>repo = empty_db, queues = [\<lparr>buf = [], closed = False\<rparr>], workers = 1\<rparr>
   \<and> Shutdown no_faults \<lparr>repo = empty_db, queues = [\<lparr>buf = [], closed = False\<rparr>], workers = 1\<rparr> =
     Returns \<lparr>repo = empty_db, queues = [\<lparr>buf = [], closed = True\<rparr>], workers = 1\<rparr>
   \<and> ProcessTransaction_send
        \<lparr>repo = empty_db, queues = [\<lparr>buf = [], closed = True\<rparr>], workers = 1\<rparr> 0
        \<lparr>WalletID = ''wallet-1'', OperationType = ''DEPOSIT'', Amount = 100\<rparr> =
       (Panicked ''send on closed channel'',
        \<lparr>repo = empty_db, queues = [\<lparr>buf = [], closed = True\<rparr>], workers = 1\<rparr>)"
  by (simp add: NewWalletService_def max_slice_len_def Shutdown_def ProcessTransaction_send_def getShard_def
      go_rem_def Let_def offset32_def prime32_def signed_modulo_int_def)

text \<open>
  C7 (the router is a function of the identifier and the worker count).  Two services with
  the same worker count, whatever their stores and lanes hold, give the same result of
  \<open>getShard\<close> for the same identifier; and the result for an identifier is the same
  after a send and after the shutdown, which leave the worker count as it is.
\<close>

theorem getShard_deterministic:
  "(workers s = workers s' \<longrightarrow> getShard s w = getShard s' w)
   \<and> getShard (snd (ProcessTransaction_send s rc tr)) w = getShard s w
   \<and> (Shutdown fails s = Returns s'' \<longrightarrow> getShard s'' w = getShard s w)"
  using send_keeps_workers [of s rc tr] Shutdown_keeps_workers [of fails s s'']
  by (auto simp add: getShard_def)

text \<open>Sixteen workers: a fresh service, one with another store and closed lanes, the shutdown.\<close>

theorem getShard_deterministic_witness:
  "workers \<lparr>repo = empty_db, queues = replicate 16 \<lparr>buf = [], closed = False\<rparr>, workers = 16\<rparr>
     = workers \<lparr>repo = \<lparr>wallets = [''wallet-1'' \<mapsto> 7], calls = [InsertWallet]\<rparr>,
                queues = replicate 16 \<lparr>buf = [], closed = True\<rparr>, workers = 16\<rparr>
   \<and> getShard \<lparr>repo = empty_db, queues = replicate 16 \<lparr>buf = [], closed = False\<rparr>, workers = 16\<rparr>
        ''wallet-1''
     = getShard \<lparr>repo = \<lparr>wallets = [''wallet-1'' \<mapsto> 7], calls = [InsertWallet]\<rparr>,
                 queues = replicate 16 \<lparr>buf = [], closed = True\<rparr>, workers = 16\<rparr> ''wallet-1''
   \<and> Shutdown no_faults
        \<lparr>repo = empty_db, queues = replicate 16 \<lparr>buf = [], closed = False\<rparr>, workers = 16\<rparr>
     = Returns \<lparr>repo = empty_db, queues = replicate 16 \<lparr>buf = [], closed = True\<rparr>, workers = 16\<rparr>
   \<and> getShard \<lparr>repo = empty_db, queues = replicate 16 \<lparr>buf = [], closed = True\<rparr>, workers = 16\<rparr>
        ''wallet-1''
     = getShard \<lparr>repo = empty_db, queues = replicate 16 \<lparr>buf = [], closed = False\<rparr>, workers = 16\<rparr>
        ''wallet-1''"
proof -
  have sh: "Shutdown no_faults
        \<lparr>repo = empty_db, queues = replicate 16 \<lparr>buf = [], closed = False\<rparr>, workers = 16\<rparr>
     = Returns \<lparr>repo = empty_db, queues = replicate 16 \<lparr>buf = [], closed = True\<rparr>, workers = 16\<rparr>"
    by (simp add: Shutdown_def list_ex_iff)
  show ?thesis
    using sh getShard_deterministic
      [where s = "\<lparr>repo = empty_db, queues = replicate 16 \<lparr>buf = [], closed = False\<rparr>,
                    workers = 16\<rparr>"
         and s' = "\<lparr>repo = \<lparr>wallets = [''wallet-1'' \<mapsto> 7], calls = [InsertWallet]\<rparr>,
                    queues = replicate 16 \<lparr>buf = [], closed = True\<rparr>, workers = 16\<rparr>"
         and s'' = "\<lparr>repo = empty_db, queues = replicate 16 \<lparr>buf = [], closed = True\<rparr>,
                    workers = 16\<rparr>"
         and fails = no_faults and w = "''wallet-1''"]
    by simp
qed

text \<open>
  C9 (the shard index is in range).  With the 64-bit \<open>int\<close>, for every identifier and every
  worker count \<open>w > 0\<close>, \<open>getShard\<close> returns, without a panic, an index \<open>k\<close> with
  \<open>0 \<le> k < w\<close>.  When the service has as many lanes as workers, as \<open>NewWalletService\<close>
  makes it, \<open>k\<close> is a valid index of \<open>queues\<close> and \<open>ProcessTransaction\<close> panics neither
  on the index nor on the division.
\<close>

theorem shard_index_in_range:
  assumes "0 < sint (workers s)"
  shows "(\<exists>k. getShard s w = Returns k \<and> 0 \<le> sint k \<and> sint k < sint (workers s)
            \<and> (length (queues s) = nat (sint (workers s)) \<longrightarrow> nat (sint k) < length (queues s)))
       \<and> (length (queues s) = nat (sint (workers s)) \<longrightarrow>
            fst (ProcessTransaction_send s rc tr) \<noteq> Panicked ''index out of range''
            \<and> fst (ProcessTransaction_send s rc tr) \<noteq> Panicked ''integer divide by zero'')"
proof -
  have "\<exists>k. getShard s w = Returns k \<and> 0 \<le> sint k \<and> sint k < sint (workers s)"
    using assms by (rule getShard_range)
  then have a: "\<exists>k. getShard s w = Returns k \<and> 0 \<le> sint k \<and> sint k < sint (workers s)
            \<and> (length (queues s) = nat (sint (workers s)) \<longrightarrow> nat (sint k) < length (queues s))"
    by auto
  obtain k where k: "getShard s (WalletID tr) = Returns k" "0 \<le> sint k"
      "sint k < sint (workers s)"
    using getShard_range [OF assms, of "WalletID tr"] by auto
  have "length (queues s) = nat (sint (workers s)) \<longrightarrow>
            fst (ProcessTransaction_send s rc tr) \<noteq> Panicked ''index out of range''
            \<and> fst (ProcessTransaction_send s rc tr) \<noteq> Panicked ''integer divide by zero''"
  proof
    assume "length (queues s) = nat (sint (workers s))"
    then have "nat (sint k) < length (queues s)"
      using k(2,3) by simp
    then show "fst (ProcessTransaction_send s rc tr) \<noteq> Panicked ''index out of range''
            \<and> fst (ProcessTransaction_send s rc tr) \<noteq> Panicked ''integer divide by zero''"
      using k by (simp add: ProcessTransaction_send_def Let_def)
  qed
  then show ?thesis
    using a by blast
qed

text \<open>The service of \<open>main\<close>, with sixteen workers; "wallet-1" goes to lane 6.\<close>

theorem shard_index_in_range_witness:
  "0 < sint (workers \<lparr>repo = empty_db, queues = replicate 16 \<lparr>buf = [], closed = False\<rparr>,
                      workers = 16\<rparr>)
   \<and> NewWalletService empty_db 16 =
       Returns \<lparr>repo = empty_db, queues = replicate 16 \<lparr>buf = [], closed = False\<rparr>, workers = 16\<rparr>
   \<and> getShard \<lparr>repo = empty_db, queues = replicate 16 \<lparr>buf = [], closed = False\<rparr>, workers = 16\<rparr>
        ''wallet-1'' = Returns 6
   \<and> fst (ProcessTransaction_send
        \<lparr>repo = empty_db, queues = replicate 16 \<lparr>buf = [], closed = False\<rparr>, workers = 16\<rparr> 0
        \<lparr>WalletID = ''wallet-1'', OperationType = ''DEPOSIT'', Amount = 100\<rparr>)
       \<noteq> Panicked ''index out of range''"
  using shard_index_in_range
    [where s = "\<lparr>repo = empty_db, queues = replicate 16 \<lparr>buf = [], closed = False\<rparr>,
                  workers = 16\<rparr>"
       and w = "''wallet-1''" and rc = 0
       and tr = "\<lparr>WalletID = ''wallet-1'', OperationType = ''DEPOSIT'', Amount = 100\<rparr>"]
  by (simp add: NewWalletService_def max_slice_len_def getShard_def go_rem_def offset32_def prime32_def
      signed_modulo_int_def)

end
